theory Spec2Isabelle
  imports Complex_Main "HOL-Library.Word"
begin

section \<open>Array values\<close>

text \<open>
  The elements of a numpy floating-point array. A finite element is modelled by the real
  number it stands for: rounding and overflow of finite results are not modelled, and the
  two zeros are one value (a zero divisor counts as \<open>+0\<close>; every zero divisor of
  \<^verbatim>\<open>common.py\<close> is a sum, which IEEE arithmetic rounds to \<open>+0\<close>). The infinities and
  NaN are values of their own, with the IEEE rules for them.
\<close>

datatype fl = Fin real | PInf | NInf | NaN

fun isfinite :: "fl \<Rightarrow> bool" where
  "isfinite (Fin x) = True"
| "isfinite PInf = False"
| "isfinite NInf = False"
| "isfinite NaN = False"

fun fneg :: "fl \<Rightarrow> fl" where
  "fneg (Fin x) = Fin (- x)"
| "fneg PInf = NInf"
| "fneg NInf = PInf"
| "fneg NaN = NaN"

fun fabs :: "fl \<Rightarrow> fl" where
  "fabs (Fin x) = Fin \<bar>x\<bar>"
| "fabs PInf = PInf"
| "fabs NInf = PInf"
| "fabs NaN = NaN"

fun fadd :: "fl \<Rightarrow> fl \<Rightarrow> fl" where
  "fadd (Fin x) (Fin y) = Fin (x + y)"
| "fadd (Fin x) PInf = PInf"
| "fadd (Fin x) NInf = NInf"
| "fadd (Fin x) NaN = NaN"
| "fadd PInf (Fin y) = PInf"
| "fadd PInf PInf = PInf"
| "fadd PInf NInf = NaN"
| "fadd PInf NaN = NaN"
| "fadd NInf (Fin y) = NInf"
| "fadd NInf PInf = NaN"
| "fadd NInf NInf = NInf"
| "fadd NInf NaN = NaN"
| "fadd NaN y = NaN"

definition fsub :: "fl \<Rightarrow> fl \<Rightarrow> fl" where
  "fsub x y = fadd x (fneg y)"

fun fmul :: "fl \<Rightarrow> fl \<Rightarrow> fl" where
  "fmul (Fin x) (Fin y) = Fin (x * y)"
| "fmul (Fin x) PInf = (if x = 0 then NaN else if 0 < x then PInf else NInf)"
| "fmul (Fin x) NInf = (if x = 0 then NaN else if 0 < x then NInf else PInf)"
| "fmul (Fin x) NaN = NaN"
| "fmul PInf (Fin y) = (if y = 0 then NaN else if 0 < y then PInf else NInf)"
| "fmul PInf PInf = PInf"
| "fmul PInf NInf = NInf"
| "fmul PInf NaN = NaN"
| "fmul NInf (Fin y) = (if y = 0 then NaN else if 0 < y then NInf else PInf)"
| "fmul NInf PInf = NInf"
| "fmul NInf NInf = PInf"
| "fmul NInf NaN = NaN"
| "fmul NaN y = NaN"

fun fdiv :: "fl \<Rightarrow> fl \<Rightarrow> fl" where
  "fdiv (Fin x) (Fin y) =
     (if y \<noteq> 0 then Fin (x / y)
      else if x = 0 then NaN else if 0 < x then PInf else NInf)"
| "fdiv (Fin x) PInf = Fin 0"
| "fdiv (Fin x) NInf = Fin 0"
| "fdiv (Fin x) NaN = NaN"
| "fdiv PInf (Fin y) = (if 0 \<le> y then PInf else NInf)"
| "fdiv PInf PInf = NaN"
| "fdiv PInf NInf = NaN"
| "fdiv PInf NaN = NaN"
| "fdiv NInf (Fin y) = (if 0 \<le> y then NInf else PInf)"
| "fdiv NInf PInf = NaN"
| "fdiv NInf NInf = NaN"
| "fdiv NInf NaN = NaN"
| "fdiv NaN y = NaN"

text \<open>\<^verbatim>\<open>x ** 2\<close>: the square.\<close>

definition fsqr :: "fl \<Rightarrow> fl" where
  "fsqr x = fmul x x"

text \<open>
  \<^verbatim>\<open>x ** p\<close> and \<^verbatim>\<open>np.power(x, p)\<close> for the exponents of the source, which are positive
  and not integers (0.4545454545, 2.4 and 1/2.4): a negative finite base gives NaN.
\<close>

fun fpow :: "fl \<Rightarrow> real \<Rightarrow> fl" where
  "fpow (Fin x) p = (if 0 \<le> x then Fin (x powr p) else NaN)"
| "fpow PInf p = PInf"
| "fpow NInf p = PInf"
| "fpow NaN p = NaN"

text \<open>\<^verbatim>\<open>np.maximum\<close> and \<^verbatim>\<open>np.minimum\<close> propagate NaN.\<close>

fun fmaximum :: "fl \<Rightarrow> fl \<Rightarrow> fl" where
  "fmaximum (Fin x) (Fin y) = Fin (max x y)"
| "fmaximum (Fin x) PInf = PInf"
| "fmaximum (Fin x) NInf = Fin x"
| "fmaximum (Fin x) NaN = NaN"
| "fmaximum PInf (Fin y) = PInf"
| "fmaximum PInf PInf = PInf"
| "fmaximum PInf NInf = PInf"
| "fmaximum PInf NaN = NaN"
| "fmaximum NInf (Fin y) = Fin y"
| "fmaximum NInf PInf = PInf"
| "fmaximum NInf NInf = NInf"
| "fmaximum NInf NaN = NaN"
| "fmaximum NaN y = NaN"

fun fminimum :: "fl \<Rightarrow> fl \<Rightarrow> fl" where
  "fminimum (Fin x) (Fin y) = Fin (min x y)"
| "fminimum (Fin x) PInf = Fin x"
| "fminimum (Fin x) NInf = NInf"
| "fminimum (Fin x) NaN = NaN"
| "fminimum PInf (Fin y) = Fin y"
| "fminimum PInf PInf = PInf"
| "fminimum PInf NInf = NInf"
| "fminimum PInf NaN = NaN"
| "fminimum NInf (Fin y) = NInf"
| "fminimum NInf PInf = NInf"
| "fminimum NInf NInf = NInf"
| "fminimum NInf NaN = NaN"
| "fminimum NaN y = NaN"

text \<open>\<^verbatim>\<open>np.clip(x, lo, hi)\<close> is \<^verbatim>\<open>minimum(maximum(x, lo), hi)\<close>.\<close>

definition clip1 :: "real \<Rightarrow> real \<Rightarrow> fl \<Rightarrow> fl" where
  "clip1 lo hi x = fminimum (fmaximum x (Fin lo)) (Fin hi)"

text \<open>\<^verbatim>\<open>x > limit\<close>: false for NaN.\<close>

fun fgt :: "fl \<Rightarrow> real \<Rightarrow> bool" where
  "fgt (Fin x) l = (l < x)"
| "fgt PInf l = True"
| "fgt NInf l = False"
| "fgt NaN l = False"

text \<open>The order of \<^verbatim>\<open>np.sort\<close>: ascending, NaN last.\<close>

fun fle :: "fl \<Rightarrow> fl \<Rightarrow> bool" where
  "fle x NaN = True"
| "fle NaN y = False"
| "fle NInf y = True"
| "fle x NInf = False"
| "fle x PInf = True"
| "fle PInf y = False"
| "fle (Fin x) (Fin y) = (x \<le> y)"

fun insort_fl :: "fl \<Rightarrow> fl list \<Rightarrow> fl list" where
  "insort_fl x [] = [x]"
| "insort_fl x (y # ys) = (if fle x y then x # y # ys else y # insort_fl x ys)"

fun sort_fl :: "fl list \<Rightarrow> fl list" where
  "sort_fl [] = []"
| "sort_fl (x # xs) = insort_fl x (sort_fl xs)"

fun sorted_fl :: "fl list \<Rightarrow> bool" where
  "sorted_fl [] = True"
| "sorted_fl [x] = True"
| "sorted_fl (x # y # ys) = (fle x y \<and> sorted_fl (y # ys))"

definition fsum :: "fl list \<Rightarrow> fl" where
  "fsum xs = foldr fadd xs (Fin 0)"

text \<open>\<^verbatim>\<open>.mean()\<close>: the mean of no element is \<open>0/0\<close>, NaN.\<close>

definition fmean :: "fl list \<Rightarrow> fl" where
  "fmean xs = fdiv (fsum xs) (Fin (real (length xs)))"

section \<open>Arrays\<close>

text \<open>
  An image is an array of shape (height, width, channels): a list of rows, each a list of
  pixels, each a list of channel values. An array with an axis of length 0 is represented
  without the lengths of its inner axes.
\<close>

type_synonym array2 = "fl list list"
type_synonym image = "fl list list list"

definition map2d :: "(fl \<Rightarrow> fl) \<Rightarrow> array2 \<Rightarrow> array2" where
  "map2d f a = map (map f) a"

definition map3 :: "(fl \<Rightarrow> fl) \<Rightarrow> image \<Rightarrow> image" where
  "map3 f img = map (map (map f)) img"

definition is_array2 :: "nat \<Rightarrow> nat \<Rightarrow> array2 \<Rightarrow> bool" where
  "is_array2 h w a = (length a = h \<and> list_all (\<lambda>row. length row = w) a)"

definition is_image :: "nat \<Rightarrow> nat \<Rightarrow> nat \<Rightarrow> image \<Rightarrow> bool" where
  "is_image h w c img =
     (length img = h \<and> list_all (\<lambda>row. length row = w \<and> list_all (\<lambda>px. length px = c) row) img)"

definition all2d :: "(fl \<Rightarrow> bool) \<Rightarrow> array2 \<Rightarrow> bool" where
  "all2d P a = list_all (list_all P) a"

definition all3 :: "(fl \<Rightarrow> bool) \<Rightarrow> image \<Rightarrow> bool" where
  "all3 P img = list_all (list_all (list_all P)) img"

datatype error =
    ValueError string
  | IndexError
  | TypeError
  | StructError
  | FileNotFoundError
  | CodecError

definition broadcast_msg :: string where
  "broadcast_msg = ''operands could not be broadcast together''"

fun sequence :: "(error + 'a) list \<Rightarrow> error + 'a list" where
  "sequence [] = Inr []"
| "sequence (x # xs) =
     (case x of
        Inl e \<Rightarrow> Inl e
      | Inr v \<Rightarrow> (case sequence xs of Inl e \<Rightarrow> Inl e | Inr vs \<Rightarrow> Inr (v # vs)))"

definition bind_err :: "error + 'a \<Rightarrow> ('a \<Rightarrow> error + 'b) \<Rightarrow> error + 'b" where
  "bind_err r f = (case r of Inl e \<Rightarrow> Inl e | Inr v \<Rightarrow> f v)"

text \<open>
  One axis of numpy's broadcasting of a binary operation: equal lengths pair up, an axis
  of length 1 is repeated, any other pair of lengths raises ValueError.
\<close>

definition broadcast :: "('a \<Rightarrow> 'b \<Rightarrow> error + 'c) \<Rightarrow> 'a list \<Rightarrow> 'b list \<Rightarrow> error + 'c list" where
  "broadcast f xs ys =
     (if length xs = length ys then sequence (map (\<lambda>(x, y). f x y) (zip xs ys))
      else if length xs = 1 then sequence (map (\<lambda>y. f (hd xs) y) ys)
      else if length ys = 1 then sequence (map (\<lambda>x. f x (hd ys)) xs)
      else Inl (ValueError broadcast_msg))"

definition ew2 :: "(fl \<Rightarrow> fl \<Rightarrow> fl) \<Rightarrow> array2 \<Rightarrow> array2 \<Rightarrow> error + array2" where
  "ew2 f a b = broadcast (broadcast (\<lambda>x y. Inr (f x y))) a b"

definition ew3 :: "(fl \<Rightarrow> fl \<Rightarrow> fl) \<Rightarrow> image \<Rightarrow> image \<Rightarrow> error + image" where
  "ew3 f a b = broadcast (broadcast (broadcast (\<lambda>x y. Inr (f x y)))) a b"

section \<open>Error metrics\<close>

text \<open>
  \<^verbatim>\<open>int(r)\<close> truncates towards zero. A slice \<^verbatim>\<open>xs[a:b]\<close> counts a negative index from the
  end and cuts both indices to the range of the list.
\<close>

definition int_trunc :: "real \<Rightarrow> int" where
  "int_trunc r = (if 0 \<le> r then \<lfloor>r\<rfloor> else \<lceil>r\<rceil>)"

definition py_slice :: "'a list \<Rightarrow> int \<Rightarrow> int \<Rightarrow> 'a list" where
  "py_slice xs a b =
     (let n = int (length xs);
          lo = (if a < 0 then max 0 (n + a) else min a n);
          hi = (if b < 0 then max 0 (n + b) else min b n)
      in take (nat (hi - lo)) (drop (nat lo) xs))"

text \<open>
  \<^verbatim>\<open>trim(error, skip)\<close>; the caller in this file passes the default \<^verbatim>\<open>skip=0.000001\<close>. The
  product \<^verbatim>\<open>skip * size\<close> is taken exactly.
\<close>

definition trim :: "image \<Rightarrow> real \<Rightarrow> fl" where
  "trim error skip =
     (let e = sort_fl (concat (concat error));
          size = length e;
          skip' = int_trunc (skip * real size)
      in fmean (py_slice e skip' (int size - skip')))"

definition L1 :: "image \<Rightarrow> image \<Rightarrow> error + image" where
  "L1 img ref = ew3 (\<lambda>x y. fabs (fsub x y)) img ref"

definition APE :: "image \<Rightarrow> image \<Rightarrow> error + image" where
  "APE img ref =
     bind_err (L1 img ref) (\<lambda>n. ew3 fdiv n (map3 (\<lambda>r. fadd (Fin 0.01) r) ref))"

definition SAPE :: "image \<Rightarrow> image \<Rightarrow> error + image" where
  "SAPE img ref =
     bind_err (L1 img ref) (\<lambda>n.
     bind_err (ew3 fadd ref img) (\<lambda>s.
       ew3 fdiv n (map3 (\<lambda>v. fadd (Fin 0.01) (fdiv v (Fin 2))) s)))"

definition L2 :: "image \<Rightarrow> image \<Rightarrow> error + image" where
  "L2 img ref = ew3 (\<lambda>x y. fsqr (fsub x y)) img ref"

definition RSE :: "image \<Rightarrow> image \<Rightarrow> error + image" where
  "RSE img ref =
     bind_err (L2 img ref) (\<lambda>n. ew3 fdiv n (map3 (\<lambda>r. fadd (Fin 0.01) (fsqr r)) ref))"

definition rgb_mean :: "image \<Rightarrow> array2" where
  "rgb_mean img = map (map fmean) img"

section \<open>Structural similarity\<close>

text \<open>
  \<^verbatim>\<open>luminance\<close>: the slices \<^verbatim>\<open>a[:,:,0]\<close>, \<^verbatim>\<open>a[:,:,1]\<close> and \<^verbatim>\<open>a[:,:,2]\<close> raise IndexError
  when the array has fewer than three channels; \<open>luminance_px\<close> is the weighted sum
  at one pixel.
\<close>

definition luminance_px :: "fl list \<Rightarrow> error + fl" where
  "luminance_px px =
     (if 2 < length px
      then Inr (fadd (fadd (fmul (Fin 0.2126) (px ! 0)) (fmul (Fin 0.7152) (px ! 1)))
                     (fmul (Fin 0.0722) (px ! 2)))
      else Inl IndexError)"

definition luminance :: "image \<Rightarrow> error + array2" where
  "luminance a =
     (let a' = map3 (\<lambda>x. fpow (fmaximum (Fin 0) x) 0.4545454545) a
      in sequence (map (\<lambda>row. sequence (map luminance_px row)) a'))"

text \<open>
  \<^verbatim>\<open>scipy.ndimage.convolve1d\<close> with its default boundary mode \<^verbatim>\<open>reflect\<close>
  (\<^verbatim>\<open>d c b a | a b c d | d c b a\<close>): position \<open>i\<close> outside \<open>0..<n\<close> reads the element at
  \<open>reflect n i\<close>. For a kernel of odd length \<open>K\<close> the output at \<open>i\<close> is the sum of
  \<open>k[j] * input[i + K div 2 - j]\<close>.
\<close>

definition reflect :: "nat \<Rightarrow> int \<Rightarrow> nat" where
  "reflect n i =
     (let m = i mod (2 * int n) in if m < int n then nat m else nat (2 * int n - 1 - m))"

definition taps :: "real list \<Rightarrow> nat \<Rightarrow> nat \<Rightarrow> (real \<times> nat) list" where
  "taps k n i =
     map (\<lambda>(j, kj). (kj, reflect n (int i + int (length k div 2) - int j))) (enumerate 0 k)"

definition convolve1d :: "array2 \<Rightarrow> real list \<Rightarrow> nat \<Rightarrow> array2" where
  "convolve1d a k axis =
     (if axis = 0
      then map (\<lambda>i. map (\<lambda>j. fsum (map (\<lambda>(kj, t). fmul (Fin kj) (a ! t ! j)) (taps k (length a) i)))
                        [0..<length (a ! i)]) [0..<length a]
      else map (\<lambda>row. map (\<lambda>j. fsum (map (\<lambda>(kj, t). fmul (Fin kj) (row ! t)) (taps k (length row) j)))
                          [0..<length row]) a)"

definition kernel :: "real list" where
  "kernel = [0.120078, 0.233881, 0.292082, 0.233881, 0.120078]"

definition blur :: "array2 \<Rightarrow> array2" where
  "blur a = (let x = convolve1d a kernel 0 in convolve1d x kernel 1)"

definition c1 :: real where
  "c1 = 0.01\<^sup>2"

definition c2 :: real where
  "c2 = 0.03\<^sup>2"

definition SSIM :: "image \<Rightarrow> image \<Rightarrow> error + array2" where
  "SSIM a0 b0 =
     bind_err (luminance a0) (\<lambda>a.
     bind_err (luminance b0) (\<lambda>b.
     let mA = blur a; mB = blur b in
     bind_err (ew2 fmul a a) (\<lambda>aa.
     bind_err (ew2 fsub (blur aa) (map2d fsqr mA)) (\<lambda>sA.
     bind_err (ew2 fmul b b) (\<lambda>bb.
     bind_err (ew2 fsub (blur bb) (map2d fsqr mB)) (\<lambda>sB.
     bind_err (ew2 fmul a b) (\<lambda>ab.
     bind_err (ew2 fmul mA mB) (\<lambda>mAB.
     bind_err (ew2 fsub (blur ab) mAB) (\<lambda>sAB.
     bind_err (ew2 fmul (map2d (fmul (Fin 2)) mA) mB) (\<lambda>n1.
     bind_err (ew2 fmul mA mA) (\<lambda>mAA.
     bind_err (ew2 fmul mB mB) (\<lambda>mBB.
     bind_err (ew2 fadd mAA mBB) (\<lambda>d1.
     bind_err (ew2 fdiv (map2d (\<lambda>v. fadd v (Fin c1)) n1) (map2d (\<lambda>v. fadd v (Fin c1)) d1)) (\<lambda>p1.
     bind_err (ew2 fadd sA sB) (\<lambda>d2.
     bind_err (ew2 fdiv (map2d (\<lambda>v. fadd (fmul (Fin 2) v) (Fin c2)) sAB)
                        (map2d (\<lambda>v. fadd v (Fin c2)) d2)) (\<lambda>p2.
       ew2 fmul p1 p2))))))))))))))))"

section \<open>The metric selector\<close>

text \<open>
  \<^verbatim>\<open>compute_error_img\<close> overwrites the non-finite entries of its argument \<^verbatim>\<open>img\<close> in place,
  and the caller may pass the same array as \<^verbatim>\<open>img\<close> and as \<^verbatim>\<open>ref\<close>. The arrays of the
  caller therefore live in a store, and the functions take their addresses and return the
  store as they leave it.
\<close>

type_synonym addr = nat
type_synonym heap = "addr \<Rightarrow> image"

text \<open>What \<^verbatim>\<open>compute_error_img\<close> returns: a 3-D array, a 2-D array, or a numpy scalar.\<close>

datatype result = Map3 image | Map2 array2 | Scalar fl

definition zero_nonfinite :: "fl \<Rightarrow> fl" where
  "zero_nonfinite x = (if isfinite x then x else Fin 0)"

definition unknown_metric :: "string \<Rightarrow> error" where
  "unknown_metric metric = ValueError (''Unknown metric: '' @ metric @ ''.'')"

definition compute_error_img :: "string \<Rightarrow> heap \<Rightarrow> addr \<Rightarrow> addr \<Rightarrow> (error + result) \<times> heap" where
  "compute_error_img metric s p_img p_ref =
     (let s1 = s(p_img := map3 zero_nonfinite (s p_img));
          img = map3 (\<lambda>x. fmaximum x (Fin 0)) (s1 p_img);
          ref = s1 p_ref
      in (if metric = ''MAE'' then map_sum id Map3 (L1 img ref)
          else if metric = ''MAPE'' then map_sum id Map3 (APE img ref)
          else if metric = ''SMAPE'' then map_sum id Map3 (SAPE img ref)
          else if metric = ''MSE'' then map_sum id Map3 (L2 img ref)
          else if metric = ''MScE'' then
            map_sum id Map3 (L2 (map3 (clip1 0 1) img) (map3 (clip1 0 1) ref))
          else if metric = ''MRSE'' then map_sum id Map3 (RSE img ref)
          else if metric = ''MtRSE'' then map_sum id (\<lambda>m. Scalar (trim m 0.000001)) (RSE img ref)
          else if metric = ''MRScE'' then
            map_sum id Map3 (RSE (map3 (clip1 0 100) img) (map3 (clip1 0 100) ref))
          else if metric = ''SSIM'' then
            map_sum id Map2 (SSIM (map3 (clip1 0 1) img) (map3 (clip1 0 1) ref))
          else Inl (unknown_metric metric),
          s1))"

text \<open>
  \<^verbatim>\<open>compute_error\<close>: the item assignment of line 185 raises TypeError on a numpy scalar.
\<close>

definition compute_error :: "string \<Rightarrow> heap \<Rightarrow> addr \<Rightarrow> addr \<Rightarrow> (error + fl) \<times> heap" where
  "compute_error metric s p_img p_ref =
     (case compute_error_img metric s p_img p_ref of
        (Inl e, s1) \<Rightarrow> (Inl e, s1)
      | (Inr (Scalar x), s1) \<Rightarrow> (Inl TypeError, s1)
      | (Inr (Map3 m), s1) \<Rightarrow>
          (Inr (fmean (concat (map (map fmean) (map3 zero_nonfinite m)))), s1)
      | (Inr (Map2 m), s1) \<Rightarrow> (Inr (fmean (concat (map2d zero_nonfinite m))), s1))"

section \<open>Colour space conversion\<close>

text \<open>
  \<^verbatim>\<open>srgb_to_linear\<close> and \<^verbatim>\<open>linear_to_srgb\<close> act on each element: \<^verbatim>\<open>np.where\<close> picks, per
  element, the value of one of two arrays, which are named here \<open>_hi\<close> (the power law)
  and \<open>_lo\<close> (the linear segment). The comparison is false for NaN. The exponents
  \<^verbatim>\<open>2.4\<close> and \<^verbatim>\<open>1.0 / 2.4\<close> are taken exactly.
\<close>

definition srgb_to_linear_hi :: "fl \<Rightarrow> fl" where
  "srgb_to_linear_hi x = fpow (fdiv (fadd x (Fin 0.055)) (Fin 1.055)) 2.4"

definition srgb_to_linear_lo :: "fl \<Rightarrow> fl" where
  "srgb_to_linear_lo x = fdiv x (Fin 12.92)"

definition srgb_to_linear :: "fl \<Rightarrow> fl" where
  "srgb_to_linear x = (if fgt x 0.04045 then srgb_to_linear_hi x else srgb_to_linear_lo x)"

definition linear_to_srgb_hi :: "fl \<Rightarrow> fl" where
  "linear_to_srgb_hi x = fsub (fmul (Fin 1.055) (fpow x (1.0 / 2.4))) (Fin 0.055)"

definition linear_to_srgb_lo :: "fl \<Rightarrow> fl" where
  "linear_to_srgb_lo x = fmul (Fin 12.92) x"

definition linear_to_srgb :: "fl \<Rightarrow> fl" where
  "linear_to_srgb x = (if fgt x 0.0031308 then linear_to_srgb_hi x else linear_to_srgb_lo x)"

section \<open>Files and paths\<close>







section \<open>The raw binary container\<close>














section \<open>Reading and writing images\<close>







section \<open>Predicates used in the statements\<close>


definition nonneg_finite :: "fl \<Rightarrow> bool" where
  "nonneg_finite x = (case x of Fin r \<Rightarrow> 0 \<le> r | _ \<Rightarrow> False)"

text \<open>The store of the examples: empty arrays everywhere, updated at the addresses used.\<close>

definition heap0 :: heap where
  "heap0 = (\<lambda>p. [])"


definition metric_names :: "string list" where
  "metric_names =
     [''MAE'', ''MAPE'', ''SMAPE'', ''MSE'', ''MScE'', ''MRSE'', ''MtRSE'', ''MRScE'', ''SSIM'']"


text \<open>An entry that is not below 0: a non-negative number, \<open>+inf\<close> or NaN.\<close>

definition not_negative :: "fl \<Rightarrow> bool" where
  "not_negative x = (case x of Fin r \<Rightarrow> 0 \<le> r | NInf \<Rightarrow> False | _ \<Rightarrow> True)"

text \<open>An entry that is not a finite number below \<open>l\<close>.\<close>

definition not_below :: "real \<Rightarrow> fl \<Rightarrow> bool" where
  "not_below l x = (case x of Fin r \<Rightarrow> l \<le> r | _ \<Rightarrow> True)"

text \<open>The real number of a finite entry, and the weighted sum of a list of taps.\<close>

fun rv :: "fl \<Rightarrow> real" where
  "rv (Fin x) = x"
| "rv PInf = 0"
| "rv NInf = 0"
| "rv NaN = 0"

definition wsum :: "(real \<times> nat) list \<Rightarrow> (nat \<Rightarrow> real) \<Rightarrow> real" where
  "wsum ts f = sum_list (map (\<lambda>(k, t). k * f t) ts)"





section \<open>Elementwise operations on arrays of one shape\<close>

lemma sequence_map_Inr: "(\<And>x. x \<in> set xs \<Longrightarrow> f x = Inr (g x)) \<Longrightarrow> sequence (map f xs) = Inr (map g xs)"
  by (induction xs) auto

lemma broadcast_Inr:
  assumes "length xs = length ys"
    and "\<And>x y. (x, y) \<in> set (zip xs ys) \<Longrightarrow> f x y = Inr (g x y)"
  shows "broadcast f xs ys = Inr (map2 g xs ys)"
proof -
  have "sequence (map (\<lambda>(x, y). f x y) (zip xs ys)) = Inr (map (\<lambda>(x, y). g x y) (zip xs ys))"
    by (rule sequence_map_Inr) (use assms(2) in auto)
  with assms(1) show ?thesis by (simp add: broadcast_def)
qed

lemma broadcast_map_map:
  assumes "\<And>x. x \<in> set xs \<Longrightarrow> f (p x) (q x) = Inr (g x)"
  shows "broadcast f (map p xs) (map q xs) = Inr (map g xs)"
proof -
  have "sequence (map (\<lambda>(x, y). f x y) (zip (map p xs) (map q xs))) = sequence (map (\<lambda>x. f (p x) (q x)) xs)"
    by (simp add: zip_map_map zip_same_conv_map comp_def)
  also have "\<dots> = Inr (map g xs)"
    by (rule sequence_map_Inr) (use assms in auto)
  finally show ?thesis by (simp add: broadcast_def)
qed



lemma map3_map3: "map3 f (map3 g a) = map3 (\<lambda>x. f (g x)) a"
  by (simp add: map3_def comp_def)

lemma map3_cong_all3: "all3 P a \<Longrightarrow> (\<And>x. P x \<Longrightarrow> f x = g x) \<Longrightarrow> map3 f a = map3 g a"
  by (auto simp: all3_def map3_def list_all_iff)

lemma all3_map3: "all3 P (map3 f a) = all3 (\<lambda>x. P (f x)) a"
  by (simp add: all3_def map3_def list_all_iff)

lemma is_image_map3: "is_image h w c (map3 f a) = is_image h w c a"
  by (simp add: is_image_def map3_def list_all_iff)





lemma maximum0_nonneg: "nonneg_finite x \<Longrightarrow> fmaximum x (Fin 0) = x"
  by (cases x) (auto simp: nonneg_finite_def)

section \<open>The errors the metrics can raise\<close>

lemma sequence_Inl: "sequence xs = Inl e \<Longrightarrow> \<exists>x\<in>set xs. x = Inl e"
  by (induction xs arbitrary: e) (auto split: sum.splits)

lemma broadcast_Inl:
  assumes "broadcast f xs ys = Inl e"
  shows "e = ValueError broadcast_msg \<or> (\<exists>x y. f x y = Inl e)"
  using assms unfolding broadcast_def
  by (fastforce split: if_splits dest!: sequence_Inl)

lemma ew3_Inl: "ew3 f a b = Inl e \<Longrightarrow> e = ValueError broadcast_msg"
  unfolding ew3_def
  by (auto dest!: broadcast_Inl)

lemma ew2_Inl: "ew2 f a b = Inl e \<Longrightarrow> e = ValueError broadcast_msg"
  unfolding ew2_def
  by (auto dest!: broadcast_Inl)

lemma bind_err_Inl: "bind_err r f = Inl e \<Longrightarrow> r = Inl e \<or> (\<exists>v. r = Inr v \<and> f v = Inl e)"
  by (cases r) (auto simp: bind_err_def)

lemma metric_Inl:
  shows "L1 a b = Inl e \<Longrightarrow> e = ValueError broadcast_msg"
    and "APE a b = Inl e \<Longrightarrow> e = ValueError broadcast_msg"
    and "SAPE a b = Inl e \<Longrightarrow> e = ValueError broadcast_msg"
    and "L2 a b = Inl e \<Longrightarrow> e = ValueError broadcast_msg"
    and "RSE a b = Inl e \<Longrightarrow> e = ValueError broadcast_msg"
  unfolding L1_def APE_def SAPE_def L2_def RSE_def
  by (auto dest!: bind_err_Inl ew3_Inl)

lemma luminance_Inl: "luminance a = Inl e \<Longrightarrow> e = IndexError"
proof -
  assume "luminance a = Inl e"
  then obtain row where "sequence (map luminance_px row) = Inl e"
    unfolding luminance_def Let_def by (auto dest!: sequence_Inl)
  then show ?thesis
    by (auto simp: luminance_px_def dest!: sequence_Inl split: if_splits)
qed

lemma SSIM_Inl: "SSIM a b = Inl e \<Longrightarrow> e = IndexError \<or> e = ValueError broadcast_msg"
  unfolding SSIM_def Let_def
  by (auto dest!: bind_err_Inl ew2_Inl luminance_Inl)

lemma map_sum_Inl: "map_sum id g r = Inl e \<Longrightarrow> r = Inl e"
  by (cases r) auto

lemma unknown_metric_distinct:
  "unknown_metric m \<noteq> ValueError broadcast_msg" "unknown_metric m \<noteq> IndexError"
  by (simp_all add: unknown_metric_def broadcast_msg_def)

section \<open>Arrays of one shape; sorting\<close>





lemma count_insort_fl: "count_list (insort_fl x xs) y = count_list (x # xs) y"
  by (induction xs) auto

lemma count_sort_fl: "count_list (sort_fl xs) y = count_list xs y"
  by (induction xs) (auto simp: count_insort_fl)

lemma fle_total: "fle x y \<or> fle y x"
  by (cases x; cases y) auto

lemma sorted_insort_fl: "sorted_fl xs \<Longrightarrow> sorted_fl (insort_fl x xs)"
proof (induction xs rule: sorted_fl.induct)
  case (3 a b ys)
  then show ?case using fle_total [of x a] fle_total [of x b] by auto
qed (use fle_total in auto)

lemma sorted_sort_fl: "sorted_fl (sort_fl xs)"
  by (induction xs) (auto simp: sorted_insort_fl)








section \<open>Signs of the entries of an error map\<close>

lemma sequence_Inr_all:
  "sequence xs = Inr vs \<Longrightarrow> (\<And>x v. x \<in> set xs \<Longrightarrow> x = Inr v \<Longrightarrow> Q v) \<Longrightarrow> list_all Q vs"
  by (induction xs arbitrary: vs) (auto split: sum.splits)

lemma broadcast_all:
  assumes "broadcast f xs ys = Inr zs"
    and "\<And>x y z. x \<in> set xs \<Longrightarrow> y \<in> set ys \<Longrightarrow> f x y = Inr z \<Longrightarrow> Q z"
  shows "list_all Q zs"
proof (cases "length xs = length ys")
  case True
  with assms(1) have "sequence (map (\<lambda>(x, y). f x y) (zip xs ys)) = Inr zs"
    by (simp add: broadcast_def)
  then show ?thesis
    by (rule sequence_Inr_all) (use assms(2) in \<open>auto elim!: in_set_zipE\<close>)
next
  case False
  show ?thesis
  proof (cases "length xs = 1")
    case True
    then have "hd xs \<in> set xs" by (cases xs) auto
    moreover from assms(1) False True have "sequence (map (\<lambda>y. f (hd xs) y) ys) = Inr zs"
      by (simp add: broadcast_def)
    ultimately show ?thesis
      by (elim sequence_Inr_all) (use assms(2) in auto)
  next
    case nx: False
    with assms(1) False have ys: "length ys = 1" and s: "sequence (map (\<lambda>x. f x (hd ys)) xs) = Inr zs"
      by (auto simp: broadcast_def split: if_splits)
    from ys have "hd ys \<in> set ys" by (cases ys) auto
    with s show ?thesis
      by (elim sequence_Inr_all) (use assms(2) in auto)
  qed
qed

lemma ew3_all:
  assumes "ew3 f a b = Inr r" "all3 P a" "all3 R b"
    and "\<And>x y. P x \<Longrightarrow> R y \<Longrightarrow> Q (f x y)"
  shows "all3 Q r"
  unfolding all3_def
  using assms(1) unfolding ew3_def
proof (rule broadcast_all)
  fix x y z
  assume x: "x \<in> set a" and y: "y \<in> set b"
    and z: "broadcast (broadcast (\<lambda>x y. Inr (f x y))) x y = Inr z"
  show "list_all (list_all Q) z"
    using z
  proof (rule broadcast_all)
    fix x' y' z'
    assume x': "x' \<in> set x" and y': "y' \<in> set y"
      and z': "broadcast (\<lambda>x y. Inr (f x y)) x' y' = Inr z'"
    show "list_all Q z'"
      using z'
    proof (rule broadcast_all)
      fix u v t
      assume "u \<in> set x'" "v \<in> set y'" "Inr (f u v) = Inr t"
      then show "Q t"
        using assms(2,3,4) x y x' y' by (auto simp: all3_def list_all_iff)
    qed
  qed
qed

lemma all3_True: "all3 (\<lambda>x. True) a"
  by (simp add: all3_def list_all_iff)

lemma all3_mono: "all3 P a \<Longrightarrow> (\<And>x. P x \<Longrightarrow> Q x) \<Longrightarrow> all3 Q a"
  by (auto simp: all3_def list_all_iff)

lemma abs_diff_not_negative: "not_negative (fabs (fsub x y))"
  by (cases x; cases y) (auto simp: not_negative_def fsub_def)

lemma sqr_diff_not_negative: "not_negative (fsqr (fsub x y))"
  by (cases x; cases y) (auto simp: not_negative_def fsub_def fsqr_def)

lemma fdiv_not_negative: "not_negative x \<Longrightarrow> not_below 0 y \<Longrightarrow> not_negative (fdiv x y)"
  by (cases x; cases y) (auto simp: not_negative_def not_below_def)

lemma L1_not_negative: "L1 a b = Inr r \<Longrightarrow> all3 not_negative r"
  unfolding L1_def
  by (erule ew3_all [OF _ all3_True all3_True]) (rule abs_diff_not_negative)

lemma L2_not_negative: "L2 a b = Inr r \<Longrightarrow> all3 not_negative r"
  unfolding L2_def
  by (erule ew3_all [OF _ all3_True all3_True]) (rule sqr_diff_not_negative)

lemma bind_err_Inr: "bind_err r f = Inr v \<Longrightarrow> \<exists>u. r = Inr u \<and> f u = Inr v"
  by (cases r) (auto simp: bind_err_def)

lemma RSE_not_negative:
  assumes "RSE a b = Inr r"
  shows "all3 not_negative r"
proof -
  from assms obtain n where n: "L2 a b = Inr n"
    and r: "ew3 fdiv n (map3 (\<lambda>r. fadd (Fin 0.01) (fsqr r)) b) = Inr r"
    unfolding RSE_def by (auto dest!: bind_err_Inr)
  have "not_below 0 (fadd (Fin 0.01) (fsqr v))" for v
    by (cases v) (auto simp: not_below_def fsqr_def)
  then have "all3 (not_below 0) (map3 (\<lambda>r. fadd (Fin 0.01) (fsqr r)) b)"
    unfolding all3_map3 by (intro all3_mono [OF all3_True])
  with r L2_not_negative [OF n] show ?thesis
    by (rule ew3_all) (rule fdiv_not_negative)
qed

lemma APE_not_negative:
  assumes "APE a b = Inr r" "all3 (not_below (- 0.01)) b"
  shows "all3 not_negative r"
proof -
  from assms obtain n where n: "L1 a b = Inr n"
    and r: "ew3 fdiv n (map3 (\<lambda>r. fadd (Fin 0.01) r) b) = Inr r"
    unfolding APE_def by (auto dest!: bind_err_Inr)
  have "all3 (not_below 0) (map3 (\<lambda>r. fadd (Fin 0.01) r) b)"
    unfolding all3_map3
    by (rule all3_mono [OF assms(2)]) (auto simp: not_below_def split: fl.splits)
  with r L1_not_negative [OF n] show ?thesis
    by (rule ew3_all) (rule fdiv_not_negative)
qed

lemma SAPE_not_negative:
  assumes "SAPE a b = Inr r" "all3 nonneg_finite a" "all3 (not_below (- 0.01)) b"
  shows "all3 not_negative r"
proof -
  from assms obtain n s where n: "L1 a b = Inr n" and s: "ew3 fadd b a = Inr s"
    and r: "ew3 fdiv n (map3 (\<lambda>v. fadd (Fin 0.01) (fdiv v (Fin 2))) s) = Inr r"
    unfolding SAPE_def by (auto dest!: bind_err_Inr)
  have "all3 (not_below (- 0.01)) s"
    using s assms(3,2)
    by (rule ew3_all) (auto simp: not_below_def nonneg_finite_def split: fl.splits)
  then have "all3 (not_below 0) (map3 (\<lambda>v. fadd (Fin 0.01) (fdiv v (Fin 2))) s)"
    unfolding all3_map3
    by (rule all3_mono) (auto simp: not_below_def split: fl.splits)
  with r L1_not_negative [OF n] show ?thesis
    by (rule ew3_all) (rule fdiv_not_negative)
qed

lemma sanitized_candidate:
  "all3 nonneg_finite (map3 (\<lambda>x. fmaximum x (Fin 0)) (map3 zero_nonfinite a))"
proof -
  have "nonneg_finite (fmaximum (zero_nonfinite x) (Fin 0))" for x
    by (cases x) (auto simp: nonneg_finite_def zero_nonfinite_def)
  then show ?thesis
    unfolding all3_map3 by (intro all3_mono [OF all3_True])
qed

lemma not_below_sanitized: "not_below l x \<Longrightarrow> l \<le> 0 \<Longrightarrow> not_below l (zero_nonfinite x)"
  by (cases x) (auto simp: not_below_def zero_nonfinite_def)

lemma map_sum_Map3: "map_sum id Map3 e = Inr (Map3 r) \<Longrightarrow> e = Inr r"
  by (cases e) auto

section \<open>Powers with the exponents 12/5 and 5/12\<close>

lemma powr_12_5_le_iff:
  fixes a b :: real
  assumes "0 \<le> a" "0 \<le> b"
  shows "a powr (12/5) \<le> b \<longleftrightarrow> a^12 \<le> b^5"
proof -
  have "(a powr (12/5))^5 = (a powr (12/5)) powr 5"
    by (metis powr_ge_zero powr_numeral)
  also have "\<dots> = a powr 12" by (simp add: powr_powr)
  also have "\<dots> = a^12" using assms(1) by (metis powr_numeral)
  finally have e: "(a powr (12/5))^5 = a^12" .
  have "a powr (12/5) \<le> b \<longleftrightarrow> (a powr (12/5))^5 \<le> b^5"
    using assms(2) by simp
  then show ?thesis by (simp only: e)
qed

lemma powr_12_5_ge_iff:
  fixes a b :: real
  assumes "0 \<le> a" "0 \<le> b"
  shows "b \<le> a powr (12/5) \<longleftrightarrow> b^5 \<le> a^12"
proof -
  have "(a powr (12/5))^5 = (a powr (12/5)) powr 5"
    by (metis powr_ge_zero powr_numeral)
  also have "\<dots> = a powr 12" by (simp add: powr_powr)
  also have "\<dots> = a^12" using assms(1) by (metis powr_numeral)
  finally have e: "(a powr (12/5))^5 = a^12" .
  have "b \<le> a powr (12/5) \<longleftrightarrow> b^5 \<le> (a powr (12/5))^5"
    using assms(2) by simp
  then show ?thesis by (simp only: e)
qed

lemma powr_5_12_le_iff:
  fixes a b :: real
  assumes "0 \<le> a" "0 \<le> b"
  shows "a powr (5/12) \<le> b \<longleftrightarrow> a^5 \<le> b^12"
proof -
  have "(a powr (5/12))^12 = (a powr (5/12)) powr 12"
    by (metis powr_ge_zero powr_numeral)
  also have "\<dots> = a powr 5" by (simp add: powr_powr)
  also have "\<dots> = a^5" using assms(1) by (metis powr_numeral)
  finally have e: "(a powr (5/12))^12 = a^5" .
  have "a powr (5/12) \<le> b \<longleftrightarrow> (a powr (5/12))^12 \<le> b^12"
    using assms(2) by simp
  then show ?thesis by (simp only: e)
qed

lemma powr_5_12_ge_iff:
  fixes a b :: real
  assumes "0 \<le> a" "0 \<le> b"
  shows "b \<le> a powr (5/12) \<longleftrightarrow> b^12 \<le> a^5"
proof -
  have "(a powr (5/12))^12 = (a powr (5/12)) powr 12"
    by (metis powr_ge_zero powr_numeral)
  also have "\<dots> = a powr 5" by (simp add: powr_powr)
  also have "\<dots> = a^5" using assms(1) by (metis powr_numeral)
  finally have e: "(a powr (5/12))^12 = a^5" .
  have "b \<le> a powr (5/12) \<longleftrightarrow> b^12 \<le> (a powr (5/12))^12"
    using assms(2) by simp
  then show ?thesis by (simp only: e)
qed

lemma srgb_threshold_lo_lt_hi: "(809/258400::real)^5 < (1909/21100)^12"
  unfolding power_divide by (simp add: divide_simps)

lemma srgb_threshold_hi_le: "(1909/21100::real)^12 \<le> (101125323/32300000000)^5"
  unfolding power_divide by (simp add: divide_simps)

lemma linear_threshold_hi_le_lo: "(7827/2500000::real)^5 \<le> (5965621/65937500)^12"
  unfolding power_divide by (simp add: divide_simps)

lemma linear_threshold_hi_ge: "(954499/10550000::real)^12 \<le> (7827/2500000)^5"
  unfolding power_divide by (simp add: divide_simps)

lemma exponents: "(2.4::real) = 12/5" "(1.0 / 2.4::real) = 5/12"
  by simp_all

lemma srgb_branches_at_threshold:
  "srgb_to_linear_lo (Fin 0.04045) = Fin (809/258400)"
  "srgb_to_linear_hi (Fin 0.04045) = Fin ((1909/21100) powr (12/5))"
  "(809/258400::real) < (1909/21100) powr (12/5)"
  "(1909/21100::real) powr (12/5) \<le> 809/258400 + 1/10^8"
proof -
  show "srgb_to_linear_lo (Fin 0.04045) = Fin (809/258400)"
    by (simp add: srgb_to_linear_lo_def)
  show "srgb_to_linear_hi (Fin 0.04045) = Fin ((1909/21100) powr (12/5))"
    by (simp add: srgb_to_linear_hi_def)
  have "\<not> (1909/21100::real) powr (12/5) \<le> 809/258400"
    using srgb_threshold_lo_lt_hi powr_12_5_le_iff [of "1909/21100" "809/258400"] by simp
  then show "(809/258400::real) < (1909/21100) powr (12/5)" by simp
  have "(1909/21100::real) powr (12/5) \<le> 101125323/32300000000"
    using srgb_threshold_hi_le powr_12_5_le_iff [of "1909/21100" "101125323/32300000000"] by simp
  then show "(1909/21100::real) powr (12/5) \<le> 809/258400 + 1/10^8" by simp
qed

lemma linear_branches_at_threshold:
  "linear_to_srgb_lo (Fin 0.0031308) = Fin (2528121/62500000)"
  "linear_to_srgb_hi (Fin 0.0031308) = Fin (1.055 * (7827/2500000) powr (5/12) - 0.055)"
  "(7827/2500000::real) powr (5/12) < 5965621/65937500"
  "(954499/10550000::real) \<le> (7827/2500000) powr (5/12)"
proof -
  show "linear_to_srgb_lo (Fin 0.0031308) = Fin (2528121/62500000)"
    by (simp add: linear_to_srgb_lo_def)
  show "linear_to_srgb_hi (Fin 0.0031308) = Fin (1.055 * (7827/2500000) powr (5/12) - 0.055)"
    by (simp add: linear_to_srgb_hi_def fsub_def)
  have "(7827/2500000::real)^5 < (5965621/65937500)^12"
    unfolding power_divide by (simp add: divide_simps)
  then have "\<not> (5965621/65937500::real) \<le> (7827/2500000) powr (5/12)"
    using powr_5_12_ge_iff [of "7827/2500000" "5965621/65937500"] by simp
  then show "(7827/2500000::real) powr (5/12) < 5965621/65937500" by simp
  show "(954499/10550000::real) \<le> (7827/2500000) powr (5/12)"
    using linear_threshold_hi_ge powr_5_12_ge_iff [of "7827/2500000" "954499/10550000"] by simp
qed

lemma round_trip_low:
  fixes x :: real
  assumes "0 \<le> x" "x \<le> 2528121/62500000"
  shows "linear_to_srgb (srgb_to_linear (Fin x)) = Fin x"
proof -
  have "x / (323/25) \<le> 7827/2500000" using assms(2) by (simp add: field_simps)
  then show ?thesis
    using assms by (simp add: srgb_to_linear_def srgb_to_linear_lo_def linear_to_srgb_def linear_to_srgb_lo_def)
qed

lemma round_trip_mid:
  fixes x :: real
  assumes "2528121/62500000 < x" "x \<le> 0.04045"
  shows "\<exists>y. linear_to_srgb (srgb_to_linear (Fin x)) = Fin y \<and> \<bar>y - x\<bar> \<le> 1/10^7"
proof -
  let ?v = "x / (323/25)"
  have v: "7827/2500000 < ?v" "?v \<le> 809/258400"
    using assms by (simp_all add: field_simps)
  let ?y = "1.055 * ?v powr (5/12) - 0.055"
  have "\<not> fgt (Fin x) 0.04045" using assms(2) by simp
  then have s: "srgb_to_linear (Fin x) = Fin ?v"
    by (simp add: srgb_to_linear_def srgb_to_linear_lo_def)
  have "fgt (Fin ?v) 0.0031308" using v(1) by simp
  then have "linear_to_srgb (Fin ?v) = Fin ?y"
    using assms(1) by (simp add: linear_to_srgb_def linear_to_srgb_hi_def fsub_def)
  with s have e: "linear_to_srgb (srgb_to_linear (Fin x)) = Fin ?y"
    by simp
  have "(7827/2500000::real) powr (5/12) \<le> ?v powr (5/12)"
    using v(1) by (intro powr_mono2) simp_all
  then have lower: "954499/10550000 \<le> ?v powr (5/12)"
    using linear_branches_at_threshold(4) by linarith
  have "?v powr (5/12) \<le> (809/258400) powr (5/12)"
    using v assms by (intro powr_mono2) simp_all
  also have "\<dots> \<le> 1909/21100"
    using srgb_threshold_lo_lt_hi powr_5_12_le_iff [of "809/258400" "1909/21100"] by simp
  finally have upper: "?v powr (5/12) \<le> 1909/21100" .
  have "?y - x \<le> 1/10^7" "x - ?y \<le> 1/10^7"
    using lower upper assms by simp_all
  then have "\<bar>?y - x\<bar> \<le> 1/10^7"
    by linarith
  with e show ?thesis by blast
qed

lemma round_trip_high:
  fixes x :: real
  assumes "0.04045 < x"
  shows "linear_to_srgb (srgb_to_linear (Fin x)) = Fin x"
proof -
  let ?u = "(x + 0.055) / 1.055"
  let ?z = "?u powr (12/5)"
  have u: "1909/21100 < ?u" using assms by (simp add: field_simps)
  then have pos: "0 < ?u" by linarith
  have "(1909/21100::real) powr (12/5) \<le> ?z"
    using u by (intro powr_mono2) simp_all
  then have z: "7827/2500000 < ?z"
    using srgb_branches_at_threshold(3) by linarith
  have "fgt (Fin x) 0.04045" using assms by simp
  then have s: "srgb_to_linear (Fin x) = Fin ?z"
    using pos by (simp add: srgb_to_linear_def srgb_to_linear_hi_def)
  have "fgt (Fin ?z) 0.0031308" using z by simp
  then have l: "linear_to_srgb (Fin ?z) = Fin (1.055 * ?z powr (5/12) - 0.055)"
    by (simp add: linear_to_srgb_def linear_to_srgb_hi_def fsub_def)
  have "?z powr (5/12) = ?u"
    using pos by (simp add: powr_powr)
  then have "1.055 * ?z powr (5/12) - 0.055 = x"
    by simp
  with s l show ?thesis by simp
qed

section \<open>The blur and the structural similarity of equal inputs\<close>

lemma reflect_lt: "0 < n \<Longrightarrow> reflect n i < n"
  unfolding reflect_def Let_def
  by (auto simp: nat_less_iff)

lemma taps_fst: "map fst (taps k n i) = k"
proof -
  have e: "fst \<circ> (\<lambda>(j, kj). (kj, reflect n (int i + int (length k div 2) - int j))) = snd"
    by (auto simp: fun_eq_iff)
  show ?thesis
    unfolding taps_def map_map e by (rule map_snd_enumerate)
qed

lemma taps_snd_lt: "0 < n \<Longrightarrow> (kj, t) \<in> set (taps k n i) \<Longrightarrow> t < n"
  by (auto simp: taps_def reflect_lt)

lemma finite_rv: "isfinite x \<Longrightarrow> x = Fin (rv x)"
  by (cases x) auto

lemma fsum_map_Fin: "fsum (map (\<lambda>x. Fin (g x)) xs) = Fin (sum_list (map g xs))"
  by (induction xs) (auto simp: fsum_def)

lemma fsum_taps:
  assumes "\<And>kj t. (kj, t) \<in> set ts \<Longrightarrow> g t = Fin (f t)"
  shows "fsum (map (\<lambda>(kj, t). fmul (Fin kj) (g t)) ts) = Fin (wsum ts f)"
proof -
  have "map (\<lambda>(kj, t). fmul (Fin kj) (g t)) ts = map (\<lambda>x. Fin (case x of (kj, t) \<Rightarrow> kj * f t)) ts"
    by (rule map_cong) (use assms in auto)
  then show ?thesis by (simp only: fsum_map_Fin wsum_def)
qed

lemma wsum_cong: "(\<And>k t. (k, t) \<in> set ts \<Longrightarrow> f t = g t) \<Longrightarrow> wsum ts f = wsum ts g"
  unfolding wsum_def by (intro arg_cong [where f = sum_list] map_cong refl) auto

lemma is_array2_nth: "is_array2 h w a \<Longrightarrow> i < h \<Longrightarrow> length (a ! i) = w"
  by (auto simp: is_array2_def list_all_length)

lemma all2d_nth: "all2d P a \<Longrightarrow> i < length a \<Longrightarrow> j < length (a ! i) \<Longrightarrow> P (a ! i ! j)"
  by (auto simp: all2d_def list_all_length)

lemma convolve_shape: "is_array2 h w a \<Longrightarrow> is_array2 h w (convolve1d a k axis)"
  by (auto simp: is_array2_def convolve1d_def list_all_length)

lemma convolve_axis0_entry:
  assumes "is_array2 h w a" "all2d isfinite a" "i < h" "j < w"
  shows "convolve1d a k 0 ! i ! j = Fin (wsum (taps k h i) (\<lambda>t. rv (a ! t ! j)))"
proof -
  have len: "length a = h" "length (a ! i) = w"
    using assms(1,3) by (auto simp: is_array2_def list_all_length)
  have "a ! t ! j = Fin (rv (a ! t ! j))" if "(kj, t) \<in> set (taps k h i)" for kj t
  proof -
    have "t < h" using that assms(3) by (intro taps_snd_lt [of h kj t k i]) auto
    then have "isfinite (a ! t ! j)"
      using all2d_nth [of isfinite a t j] assms(1,2,4) by (simp add: is_array2_def list_all_length)
    then show ?thesis by (rule finite_rv)
  qed
  then have "fsum (map (\<lambda>(kj, t). fmul (Fin kj) (a ! t ! j)) (taps k h i)) = Fin (wsum (taps k h i) (\<lambda>t. rv (a ! t ! j)))"
    by (rule fsum_taps)
  then show ?thesis
    using assms(3,4) len by (simp add: convolve1d_def)
qed

lemma convolve_axis1_entry:
  assumes "is_array2 h w a" "all2d isfinite a" "i < h" "j < w"
  shows "convolve1d a k 1 ! i ! j = Fin (wsum (taps k w j) (\<lambda>t. rv (a ! i ! t)))"
proof -
  have len: "length a = h" "length (a ! i) = w"
    using assms(1,3) by (auto simp: is_array2_def list_all_length)
  have "a ! i ! t = Fin (rv (a ! i ! t))" if "(kj, t) \<in> set (taps k w j)" for kj t
  proof -
    have "t < w" using that assms(4) by (intro taps_snd_lt [of w kj t k j]) auto
    then have "isfinite (a ! i ! t)"
      using all2d_nth [of isfinite a i t] assms(2,3) len by simp
    then show ?thesis by (rule finite_rv)
  qed
  then have "fsum (map (\<lambda>(kj, t). fmul (Fin kj) (a ! i ! t)) (taps k w j)) = Fin (wsum (taps k w j) (\<lambda>t. rv (a ! i ! t)))"
    by (rule fsum_taps)
  then show ?thesis
    using assms(3,4) len by (simp add: convolve1d_def)
qed

lemma all2d_I:
  assumes "is_array2 h w a" "\<And>i j. i < h \<Longrightarrow> j < w \<Longrightarrow> P (a ! i ! j)"
  shows "all2d P a"
  using assms by (auto simp: all2d_def is_array2_def list_all_length)

lemma blur_shape: "is_array2 h w a \<Longrightarrow> is_array2 h w (blur a)"
  by (simp add: blur_def Let_def convolve_shape)

lemma blur_entry:
  assumes "is_array2 h w a" "all2d isfinite a" "i < h" "j < w"
  shows "blur a ! i ! j =
         Fin (wsum (taps kernel w j) (\<lambda>t. wsum (taps kernel h i) (\<lambda>u. rv (a ! u ! t))))"
proof -
  let ?x = "convolve1d a kernel 0"
  have sx: "is_array2 h w ?x" using assms(1) by (rule convolve_shape)
  have ex: "?x ! i' ! j' = Fin (wsum (taps kernel h i') (\<lambda>u. rv (a ! u ! j')))" if "i' < h" "j' < w" for i' j'
    using assms(1,2) that by (rule convolve_axis0_entry)
  have fx: "all2d isfinite ?x"
    using sx ex by (intro all2d_I [of h w]) simp_all
  have "blur a ! i ! j = Fin (wsum (taps kernel w j) (\<lambda>t. rv (?x ! i ! t)))"
    unfolding blur_def Let_def using sx fx assms(3,4) by (rule convolve_axis1_entry)
  also have "wsum (taps kernel w j) (\<lambda>t. rv (?x ! i ! t)) =
             wsum (taps kernel w j) (\<lambda>t. wsum (taps kernel h i) (\<lambda>u. rv (a ! u ! t)))"
  proof (rule wsum_cong)
    fix k t assume "(k, t) \<in> set (taps kernel w j)"
    then have "t < w" using taps_snd_lt [of w k t kernel j] assms(4) by auto
    then show "rv (?x ! i ! t) = wsum (taps kernel h i) (\<lambda>u. rv (a ! u ! t))"
      using ex [OF assms(3)] by simp
  qed
  finally show ?thesis .
qed

lemma wsum_shift:
  "wsum ts (\<lambda>t. (f t - c)\<^sup>2) = wsum ts (\<lambda>t. (f t)\<^sup>2) - 2 * c * wsum ts f + c\<^sup>2 * sum_list (map fst ts)"
  unfolding wsum_def
  by (induction ts) (auto simp: algebra_simps power2_eq_square)

lemma wsum_nonneg:
  assumes "\<And>k t. (k, t) \<in> set ts \<Longrightarrow> 0 \<le> k" "\<And>k t. (k, t) \<in> set ts \<Longrightarrow> 0 \<le> f t"
  shows "0 \<le> wsum ts f"
  unfolding wsum_def using assms
  by (intro sum_list_nonneg) auto

lemma wsum_mono:
  assumes "\<And>k t. (k, t) \<in> set ts \<Longrightarrow> 0 \<le> k" "\<And>k t. (k, t) \<in> set ts \<Longrightarrow> f t \<le> g t"
  shows "wsum ts f \<le> wsum ts g"
  unfolding wsum_def using assms
  by (intro sum_list_mono) (auto intro: mult_left_mono)

lemma wsum_jensen:
  assumes "\<And>k t. (k, t) \<in> set ts \<Longrightarrow> 0 \<le> k" "sum_list (map fst ts) = 1"
  shows "(wsum ts f)\<^sup>2 \<le> wsum ts (\<lambda>t. (f t)\<^sup>2)"
proof -
  have "0 \<le> wsum ts (\<lambda>t. (f t - wsum ts f)\<^sup>2)"
  proof (rule wsum_nonneg)
    show "0 \<le> k" if "(k, t) \<in> set ts" for k t using that by (rule assms(1))
    show "0 \<le> (f t - wsum ts f)\<^sup>2" for t by simp
  qed
  then have "0 \<le> wsum ts (\<lambda>t. (f t)\<^sup>2) - 2 * wsum ts f * wsum ts f + (wsum ts f)\<^sup>2 * 1"
    unfolding wsum_shift assms(2) .
  then show ?thesis
    by (simp add: power2_eq_square)
qed

lemma kernel_weights:
  "(k, t) \<in> set (taps kernel n i) \<Longrightarrow> 0 \<le> k" "sum_list (map fst (taps kernel n i)) = 1"
proof -
  assume "(k, t) \<in> set (taps kernel n i)"
  then have "k \<in> set (map fst (taps kernel n i))" by force
  then show "0 \<le> k" unfolding taps_fst by (auto simp: kernel_def)
next
  show "sum_list (map fst (taps kernel n i)) = 1"
    unfolding taps_fst by (simp add: kernel_def)
qed

lemma blur_variance_nonneg:
  "(wsum (taps kernel w j) (\<lambda>t. wsum (taps kernel h i) (\<lambda>u. f u t)))\<^sup>2
   \<le> wsum (taps kernel w j) (\<lambda>t. wsum (taps kernel h i) (\<lambda>u. (f u t)\<^sup>2))"
proof -
  have "(wsum (taps kernel w j) (\<lambda>t. wsum (taps kernel h i) (\<lambda>u. f u t)))\<^sup>2
        \<le> wsum (taps kernel w j) (\<lambda>t. (wsum (taps kernel h i) (\<lambda>u. f u t))\<^sup>2)"
    by (rule wsum_jensen [OF kernel_weights])
  also have "\<dots> \<le> wsum (taps kernel w j) (\<lambda>t. wsum (taps kernel h i) (\<lambda>u. (f u t)\<^sup>2))"
    by (intro wsum_mono wsum_jensen [OF kernel_weights]) (rule kernel_weights(1))
  finally show ?thesis .
qed

lemma map2d_map2d: "map2d f (map2d g a) = map2d (\<lambda>x. f (g x)) a"
  by (simp add: map2d_def comp_def)

lemma map2d_cong_all2d: "all2d P a \<Longrightarrow> (\<And>x. P x \<Longrightarrow> f x = g x) \<Longrightarrow> map2d f a = map2d g a"
  by (auto simp: all2d_def map2d_def list_all_iff)

lemma is_array2_map2d: "is_array2 h w (map2d f a) = is_array2 h w a"
  by (simp add: is_array2_def map2d_def list_all_iff)

lemma map2d_nth: "i < length a \<Longrightarrow> j < length (a ! i) \<Longrightarrow> map2d f a ! i ! j = f (a ! i ! j)"
  by (simp add: map2d_def)

lemma ew2_map_map: "ew2 f (map2d p a) (map2d q a) = Inr (map2d (\<lambda>x. f (p x) (q x)) a)"
  unfolding ew2_def map2d_def
  by (intro broadcast_map_map) simp

lemma ew2_self: "ew2 f a a = Inr (map2d (\<lambda>x. f x x) a)"
  using ew2_map_map [of f id a id] by (simp add: map2d_def)

lemma ew2_map_left: "ew2 f (map2d p a) a = Inr (map2d (\<lambda>x. f (p x) x) a)"
  using ew2_map_map [of f p a id] by (simp add: map2d_def)

lemma ew2_same_shape:
  assumes "is_array2 h w a" "is_array2 h w b"
  shows "ew2 f a b = Inr (map2 (map2 f) a b)"
  unfolding ew2_def
proof (rule broadcast_Inr)
  show "length a = length b" using assms by (simp add: is_array2_def)
next
  fix x y assume "(x, y) \<in> set (zip a b)"
  then have "length x = length y"
    using assms by (auto simp: is_array2_def list_all_iff elim!: in_set_zipE)
  then show "broadcast (\<lambda>x y. Inr (f x y)) x y = Inr (map2 f x y)"
    by (rule broadcast_Inr) simp
qed

lemma map2_2d_shape:
  assumes "is_array2 h w a" "is_array2 h w b"
  shows "is_array2 h w (map2 (map2 f) a b)"
  using assms by (auto simp: is_array2_def list_all_iff elim!: in_set_zipE)

lemma map2_2d_nth:
  assumes "is_array2 h w a" "is_array2 h w b" "i < h" "j < w"
  shows "map2 (map2 f) a b ! i ! j = f (a ! i ! j) (b ! i ! j)"
  using assms by (simp add: is_array2_def list_all_length)

lemma const_array2: "is_array2 h w a \<Longrightarrow> map2d (\<lambda>x. c) a = replicate h (replicate w c)"
proof -
  assume a: "is_array2 h w a"
  have "map (map (\<lambda>x. c)) a = map (\<lambda>row. replicate w c) a"
    using a by (intro map_cong refl) (auto simp: is_array2_def list_all_iff map_replicate_const)
  also have "\<dots> = replicate h (replicate w c)"
    using a by (simp add: is_array2_def map_replicate_const)
  finally show ?thesis by (simp add: map2d_def)
qed

lemma p1_one: "isfinite x \<Longrightarrow>
  fdiv (fadd (fmul (fmul (Fin 2) x) x) (Fin c1)) (fadd (fadd (fmul x x) (fmul x x)) (Fin c1)) = Fin 1"
proof (cases x)
  case (Fin m)
  have "0 < m * m + m * m + c1"
    by (intro add_nonneg_pos add_nonneg_nonneg) (simp_all add: c1_def)
  then show ?thesis using Fin by simp
qed auto

lemma p2_one: "nonneg_finite v \<Longrightarrow>
  fdiv (fadd (fmul (Fin 2) v) (Fin c2)) (fadd (fadd v v) (Fin c2)) = Fin 1"
proof (cases v)
  case (Fin m)
  assume "nonneg_finite v"
  with Fin have "0 \<le> m" by (simp add: nonneg_finite_def)
  moreover have "0 < c2" by (simp add: c2_def)
  ultimately have "0 < m + m + c2" by linarith
  then show ?thesis using Fin by simp
qed (auto simp: nonneg_finite_def)

lemma SSIM_self:
  assumes lum: "luminance x = Inr l" and shape: "is_array2 h w l" and fin: "all2d isfinite l"
  shows "SSIM x x = Inr (replicate h (replicate w (Fin 1)))"
proof -
  let ?m = "blur l"
  let ?ll = "map2d (\<lambda>x. fmul x x) l"
  let ?s = "map2 (map2 fsub) (blur ?ll) (map2d fsqr ?m)"
  let ?ones = "replicate h (replicate w (Fin 1))"
  have m_shape: "is_array2 h w ?m" using shape by (rule blur_shape)
  have m_entry: "?m ! i ! j = Fin (wsum (taps kernel w j) (\<lambda>t. wsum (taps kernel h i) (\<lambda>u. rv (l ! u ! t))))"
    if "i < h" "j < w" for i j
    using shape fin that by (rule blur_entry)
  have m_fin: "all2d isfinite ?m"
    using m_shape m_entry by (intro all2d_I [of h w]) simp_all
  have ll_shape: "is_array2 h w ?ll" using shape by (simp add: is_array2_map2d)
  have ll_val: "?ll ! u ! t = Fin ((rv (l ! u ! t))\<^sup>2)" if "u < h" "t < w" for u t
  proof -
    have len: "u < length l" "t < length (l ! u)"
      using shape that by (auto simp: is_array2_def list_all_length)
    then have "isfinite (l ! u ! t)" using all2d_nth [OF fin] by simp
    then have "l ! u ! t = Fin (rv (l ! u ! t))" by (rule finite_rv)
    then have "fmul (l ! u ! t) (l ! u ! t) = Fin ((rv (l ! u ! t))\<^sup>2)"
      by (metis fmul.simps(1) power2_eq_square)
    then show ?thesis using len by (simp add: map2d_nth)
  qed
  have ll_fin: "all2d isfinite ?ll"
    using ll_shape ll_val by (intro all2d_I [of h w]) simp_all
  have bll_entry: "blur ?ll ! i ! j = Fin (wsum (taps kernel w j) (\<lambda>t. wsum (taps kernel h i) (\<lambda>u. (rv (l ! u ! t))\<^sup>2)))"
    if "i < h" "j < w" for i j
  proof -
    have "blur ?ll ! i ! j = Fin (wsum (taps kernel w j) (\<lambda>t. wsum (taps kernel h i) (\<lambda>u. rv (?ll ! u ! t))))"
      using ll_shape ll_fin that by (rule blur_entry)
    also have "wsum (taps kernel w j) (\<lambda>t. wsum (taps kernel h i) (\<lambda>u. rv (?ll ! u ! t)))
             = wsum (taps kernel w j) (\<lambda>t. wsum (taps kernel h i) (\<lambda>u. (rv (l ! u ! t))\<^sup>2))"
    proof (intro wsum_cong)
      fix k t k' u
      assume "(k, t) \<in> set (taps kernel w j)" "(k', u) \<in> set (taps kernel h i)"
      then have "t < w" "u < h"
        using taps_snd_lt [of w k t kernel j] taps_snd_lt [of h k' u kernel i] that by auto
      then show "rv (?ll ! u ! t) = (rv (l ! u ! t))\<^sup>2" by (simp add: ll_val)
    qed
    finally show ?thesis .
  qed
  have s_shape: "is_array2 h w ?s"
    using blur_shape [OF ll_shape] m_shape by (intro map2_2d_shape) (simp_all add: is_array2_map2d)
  have s_nonneg: "all2d nonneg_finite ?s"
    using s_shape
  proof (rule all2d_I)
    fix i j assume ij: "i < h" "j < w"
    have "?s ! i ! j = fsub (blur ?ll ! i ! j) (map2d fsqr ?m ! i ! j)"
      using blur_shape [OF ll_shape] m_shape ij
      by (intro map2_2d_nth [of h w]) (simp_all add: is_array2_map2d)
    also have "map2d fsqr ?m ! i ! j = fsqr (?m ! i ! j)"
      using m_shape ij by (intro map2d_nth) (auto simp: is_array2_def list_all_length)
    finally have "?s ! i ! j = fsub (blur ?ll ! i ! j) (fsqr (?m ! i ! j))" .
    then have "?s ! i ! j =
        Fin (wsum (taps kernel w j) (\<lambda>t. wsum (taps kernel h i) (\<lambda>u. (rv (l ! u ! t))\<^sup>2))
           - (wsum (taps kernel w j) (\<lambda>t. wsum (taps kernel h i) (\<lambda>u. rv (l ! u ! t))))\<^sup>2)"
      unfolding bll_entry [OF ij] m_entry [OF ij] by (simp add: fsub_def fsqr_def power2_eq_square)
    then show "nonneg_finite (?s ! i ! j)"
      using blur_variance_nonneg [of w j h i "\<lambda>u t. rv (l ! u ! t)"]
      by (simp add: nonneg_finite_def)
  qed
  have aa: "ew2 fmul l l = Inr ?ll" by (rule ew2_self)
  have sA: "ew2 fsub (blur ?ll) (map2d fsqr ?m) = Inr ?s"
    using blur_shape [OF ll_shape] m_shape by (intro ew2_same_shape [of h w]) (simp_all add: is_array2_map2d)
  have mm: "ew2 fmul ?m ?m = Inr (map2d fsqr ?m)"
    unfolding ew2_self by (simp add: map2d_def fsqr_def)
  have n1: "ew2 fmul (map2d (fmul (Fin 2)) ?m) ?m = Inr (map2d (\<lambda>x. fmul (fmul (Fin 2) x) x) ?m)"
    by (rule ew2_map_left)
  have d1: "ew2 fadd (map2d fsqr ?m) (map2d fsqr ?m) = Inr (map2d (\<lambda>x. fadd (fmul x x) (fmul x x)) ?m)"
    unfolding ew2_map_map by (simp add: fsqr_def)
  have p1: "ew2 fdiv (map2d (\<lambda>v. fadd v (Fin c1)) (map2d (\<lambda>x. fmul (fmul (Fin 2) x) x) ?m))
                     (map2d (\<lambda>v. fadd v (Fin c1)) (map2d (\<lambda>x. fadd (fmul x x) (fmul x x)) ?m)) = Inr ?ones"
    unfolding map2d_map2d ew2_map_map
    using map2d_cong_all2d [OF m_fin, of _ "\<lambda>x. Fin 1"] const_array2 [OF m_shape, of "Fin 1"]
    by (simp add: p1_one)
  have d2: "ew2 fadd ?s ?s = Inr (map2d (\<lambda>v. fadd v v) ?s)" by (rule ew2_self)
  have p2: "ew2 fdiv (map2d (\<lambda>v. fadd (fmul (Fin 2) v) (Fin c2)) ?s)
                     (map2d (\<lambda>v. fadd v (Fin c2)) (map2d (\<lambda>v. fadd v v) ?s)) = Inr ?ones"
    unfolding map2d_map2d ew2_map_map
    using map2d_cong_all2d [OF s_nonneg, of _ "\<lambda>x. Fin 1"] const_array2 [OF s_shape, of "Fin 1"]
    by (simp add: p2_one)
  have pp: "ew2 fmul ?ones ?ones = Inr ?ones"
    unfolding ew2_self by (simp add: map2d_def)
  show ?thesis
    unfolding SSIM_def Let_def
    by (simp only: lum bind_err_def sum.case aa sA mm n1 d1 p1 d2 p2 pp)
qed

lemma luminance_finite:
  assumes "is_image h w c x" "2 < c" "all3 isfinite x"
  shows "\<exists>l. luminance x = Inr l \<and> is_array2 h w l \<and> all2d isfinite l"
proof -
  let ?g = "\<lambda>v. fpow (fmaximum (Fin 0) v) 0.4545454545"
  let ?mix = "\<lambda>px. fadd (fadd (fmul (Fin 0.2126) (px ! 0)) (fmul (Fin 0.7152) (px ! 1)))
                          (fmul (Fin 0.0722) (px ! 2))"
  let ?l = "map (map ?mix) (map3 ?g x)"
  have g_fin: "isfinite (?g v)" if "isfinite v" for v
    using that by (cases v) auto
  have px: "luminance_px px = Inr (?mix px) \<and> isfinite (?mix px)"
    if "length px = c" "list_all isfinite px" for px
  proof -
    have "isfinite (px ! 0)" "isfinite (px ! 1)" "isfinite (px ! 2)"
      using that assms(2) by (auto simp: list_all_length)
    then obtain a b d where "px ! 0 = Fin a" "px ! 1 = Fin b" "px ! 2 = Fin d"
      by (metis finite_rv)
    then show ?thesis using that(1) assms(2) by (simp add: luminance_px_def)
  qed
  have rows: "\<forall>row \<in> set (map3 ?g x). length row = w \<and> (\<forall>px \<in> set row. length px = c \<and> list_all isfinite px)"
    using assms(1,3) g_fin by (auto simp: is_image_def all3_def map3_def list_all_iff)
  have row_ok: "sequence (map luminance_px row) = Inr (map ?mix row)" if "row \<in> set (map3 ?g x)" for row
  proof (rule sequence_map_Inr)
    fix px assume "px \<in> set row"
    with rows that have "length px = c" "list_all isfinite px" by auto
    then show "luminance_px px = Inr (?mix px)" using px by blast
  qed
  have "sequence (map (\<lambda>row. sequence (map luminance_px row)) (map3 ?g x)) = Inr ?l"
    by (rule sequence_map_Inr) (rule row_ok)
  then have "luminance x = Inr ?l"
    by (simp only: luminance_def Let_def)
  moreover have "is_array2 h w ?l"
    using rows assms(1) by (auto simp: is_array2_def is_image_def list_all_iff map3_def)
  moreover have "all2d isfinite ?l"
    using rows px by (auto simp: all2d_def list_all_iff)
  ultimately show ?thesis by blast
qed

lemma fsum_replicate: "fsum (replicate n (Fin x)) = Fin (real n * x)"
  by (induction n) (auto simp: fsum_def algebra_simps)

lemma concat_replicate_rows: "concat (replicate h (replicate w x)) = replicate (h * w) x"
  by (induction h) (simp_all add: replicate_add)

lemma mean_ones:
  assumes "0 < h" "0 < w"
  shows "fmean (concat (map2d zero_nonfinite (replicate h (replicate w (Fin 1))))) = Fin 1"
proof -
  have "concat (map2d zero_nonfinite (replicate h (replicate w (Fin 1)))) = replicate (h * w) (Fin 1)"
    by (simp add: map2d_def zero_nonfinite_def concat_replicate_rows)
  then show ?thesis using assms by (simp add: fmean_def fsum_replicate)
qed

lemma clip_sanitized: "clip1 0 1 (fmaximum (zero_nonfinite v) (Fin 0)) = clip1 0 1 (zero_nonfinite v)"
  by (cases v) (auto simp: clip1_def zero_nonfinite_def)

lemma clip_sanitized_finite: "isfinite (clip1 0 1 (zero_nonfinite v))"
  by (cases v) (auto simp: clip1_def zero_nonfinite_def)

lemma clip_clip: "clip1 0 1 (clip1 0 1 v) = clip1 0 1 v"
  by (cases v) (auto simp: clip1_def)

lemma sanitize_nonneg_finite:
  "nonneg_finite v \<Longrightarrow> zero_nonfinite v = v"
  "nonneg_finite v \<Longrightarrow> nonneg_finite (clip1 0 1 v)"
  by (cases v; auto simp: nonneg_finite_def zero_nonfinite_def clip1_def)+

lemma sanitize_image:
  assumes "all3 nonneg_finite a"
  shows "map3 zero_nonfinite a = a" "map3 (\<lambda>x. fmaximum x (Fin 0)) a = a"
    "all3 nonneg_finite (map3 (clip1 0 1) a)"
proof -
  show "map3 zero_nonfinite a = a"
    using map3_cong_all3 [OF assms, of zero_nonfinite "\<lambda>x. x"]
    by (simp add: sanitize_nonneg_finite map3_def)
  show "map3 (\<lambda>x. fmaximum x (Fin 0)) a = a"
    using map3_cong_all3 [OF assms, of "\<lambda>x. fmaximum x (Fin 0)" "\<lambda>x. x"]
    by (simp add: maximum0_nonneg map3_def)
  show "all3 nonneg_finite (map3 (clip1 0 1) a)"
    unfolding all3_map3 using assms
    by (auto simp: all3_def list_all_iff sanitize_nonneg_finite)
qed

section \<open>Bytes, headers and reshaping\<close>






















section \<open>An image compared with itself\<close>





section \<open>Structural similarity of an image with itself\<close>

text \<open>
  C2 (as amended). For every image with positive height and width and at least three
  channels, passed as candidate and as reference, the SSIM map is 1 at every pixel,
  boundary pixels included, and \<^verbatim>\<open>compute_error("SSIM", img, img)\<close> is 1. This holds for
  negative and non-finite entries too: both arguments are clamped to [0, 1] after line 160
  has overwritten the non-finite entries of the shared array.
\<close>

theorem SSIM_identity:
  assumes "is_image h w c (s p)" "0 < h" "0 < w" "2 < c"
  shows "fst (compute_error_img ''SSIM'' s p p) = Inr (Map2 (replicate h (replicate w (Fin 1))))
         \<and> fst (compute_error ''SSIM'' s p p) = Inr (Fin 1)"
proof -
  let ?y = "map3 (\<lambda>v. clip1 0 1 (zero_nonfinite v)) (s p)"
  have y: "is_image h w c ?y" "all3 isfinite ?y"
    using assms(1) unfolding all3_map3
    by (simp_all add: is_image_map3 clip_sanitized_finite all3_def list_all_iff)
  then obtain l where "luminance ?y = Inr l" "is_array2 h w l" "all2d isfinite l"
    using luminance_finite [OF y(1) assms(4) y(2)] by blast
  then have "SSIM ?y ?y = Inr (replicate h (replicate w (Fin 1)))"
    by (rule SSIM_self)
  then have img: "compute_error_img ''SSIM'' s p p =
      (Inr (Map2 (replicate h (replicate w (Fin 1)))), s(p := map3 zero_nonfinite (s p)))"
    by (simp add: compute_error_img_def Let_def map3_map3 clip_sanitized)
  then show ?thesis
    using mean_ones [OF assms(2,3)] by (simp add: compute_error_def)
qed

text \<open>A 1x1 image with three channels, one of them NaN and one negative.\<close>

theorem SSIM_identity_witness:
  "fst (compute_error ''SSIM'' (heap0(0 := [[[Fin 2, NaN, Fin (- 1)]]])) 0 0) = Inr (Fin 1)"
  using SSIM_identity [of 1 1 3 "heap0(0 := [[[Fin 2, NaN, Fin (- 1)]]])" 0]
  by (simp add: is_image_def)

text \<open>
  C2 as stated fails for an image with one channel: \<^verbatim>\<open>luminance\<close> reads the channels 0, 1
  and 2, and the slice \<^verbatim>\<open>a[:,:,1]\<close> raises IndexError.
\<close>

theorem SSIM_one_channel_counterexample:
  "fst (compute_error ''SSIM'' (heap0(0 := [[[Fin 1]]])) 0 0) = Inl IndexError"
  by (simp add: compute_error_def compute_error_img_def SSIM_def luminance_def luminance_px_def
      bind_err_def map3_def)

section \<open>The trimmed metric returns a scalar\<close>



section \<open>Unknown metric names\<close>

text \<open>
  C4. \<^verbatim>\<open>compute_error_img\<close> raises the ValueError whose message is
  \<^verbatim>\<open>Unknown metric: <name>.\<close> exactly when the name is not one of the nine metric names;
  every other failure (shapes that do not broadcast, fewer than three channels for SSIM)
  is a different error.
\<close>

theorem unknown_metric_iff:
  "fst (compute_error_img metric s p q) = Inl (unknown_metric metric) \<longleftrightarrow> metric \<notin> set metric_names"
proof
  assume "fst (compute_error_img metric s p q) = Inl (unknown_metric metric)"
  then show "metric \<notin> set metric_names"
    using unknown_metric_distinct [of metric]
    by (auto simp: compute_error_img_def Let_def metric_names_def
        dest!: map_sum_Inl metric_Inl SSIM_Inl split: if_splits)
next
  assume "metric \<notin> set metric_names"
  then show "fst (compute_error_img metric s p q) = Inl (unknown_metric metric)"
    by (simp add: compute_error_img_def Let_def metric_names_def)
qed

text \<open>The name \<^verbatim>\<open>FOO\<close> is unknown, and the message names it.\<close>

theorem unknown_metric_iff_witness:
  "fst (compute_error_img ''FOO'' heap0 0 1) = Inl (ValueError ''Unknown metric: FOO.'')
   \<and> ''FOO'' \<notin> set metric_names"
  using unknown_metric_iff [of "''FOO''" heap0 0 1]
  by (simp add: metric_names_def unknown_metric_def)

section \<open>Round trip through the raw binary container\<close>



section \<open>Buffers that do not match the header\<close>




section \<open>The sRGB round trip\<close>

text \<open>
  C7 (as amended). In exact arithmetic, for every \<open>x\<close> in [0, 1] the round trip
  \<^verbatim>\<open>linear_to_srgb(srgb_to_linear(x))\<close> is within \<open>1e-7\<close> of \<open>x\<close>, and equal to \<open>x\<close> unless
  \<open>0.040449936 < x \<le> 0.04045\<close>. The two branches of each function do not coincide at
  the threshold: at 0.04045 the branches of \<^verbatim>\<open>srgb_to_linear\<close> differ by more than 0 and at
  most \<open>1e-8\<close>, at 0.0031308 those of \<^verbatim>\<open>linear_to_srgb\<close> by more than 0 and at most
  \<open>1e-7\<close>.
\<close>

theorem srgb_round_trip:
  assumes "0 \<le> x" "x \<le> 1"
  shows "(\<exists>y. linear_to_srgb (srgb_to_linear (Fin x)) = Fin y \<and> \<bar>y - x\<bar> \<le> 1/10^7
              \<and> (x \<le> 0.040449936 \<or> 0.04045 < x \<longrightarrow> y = x))
       \<and> (\<exists>a b. srgb_to_linear_lo (Fin 0.04045) = Fin a \<and> srgb_to_linear_hi (Fin 0.04045) = Fin b
              \<and> a < b \<and> b - a \<le> 1/10^8)
       \<and> (\<exists>a b. linear_to_srgb_lo (Fin 0.0031308) = Fin a \<and> linear_to_srgb_hi (Fin 0.0031308) = Fin b
              \<and> b < a \<and> a - b \<le> 1/10^7)"
proof (intro conjI)
  consider "x \<le> 2528121/62500000" | "2528121/62500000 < x" "x \<le> 0.04045" | "0.04045 < x"
    by linarith
  then show "\<exists>y. linear_to_srgb (srgb_to_linear (Fin x)) = Fin y \<and> \<bar>y - x\<bar> \<le> 1/10^7
              \<and> (x \<le> 0.040449936 \<or> 0.04045 < x \<longrightarrow> y = x)"
  proof cases
    case 1
    then show ?thesis using round_trip_low [OF assms(1)] by simp
  next
    case 2
    then show ?thesis using round_trip_mid [of x] by auto
  next
    case 3
    then show ?thesis using round_trip_high [of x] by simp
  qed
next
  show "\<exists>a b. srgb_to_linear_lo (Fin 0.04045) = Fin a \<and> srgb_to_linear_hi (Fin 0.04045) = Fin b
              \<and> a < b \<and> b - a \<le> 1/10^8"
    using srgb_branches_at_threshold by (intro exI conjI) (assumption | linarith)+
next
  have "(2528121/62500000::real) - (1.055 * (7827/2500000) powr (5/12) - 0.055) \<le> 1/10^7"
    using linear_branches_at_threshold(4) by simp
  moreover have "1.055 * (7827/2500000::real) powr (5/12) - 0.055 < 2528121/62500000"
    using linear_branches_at_threshold(3) by simp
  ultimately show "\<exists>a b. linear_to_srgb_lo (Fin 0.0031308) = Fin a \<and> linear_to_srgb_hi (Fin 0.0031308) = Fin b
              \<and> b < a \<and> a - b \<le> 1/10^7"
    using linear_branches_at_threshold(1,2) by blast
qed

text \<open>The round trip at 1/2 is exact.\<close>

theorem srgb_round_trip_witness:
  "linear_to_srgb (srgb_to_linear (Fin (1/2))) = Fin (1/2)"
proof -
  have "\<exists>y. linear_to_srgb (srgb_to_linear (Fin (1/2))) = Fin y \<and> \<bar>y - 1/2\<bar> \<le> 1/10^7
              \<and> ((1/2::real) \<le> 0.040449936 \<or> 0.04045 < (1/2::real) \<longrightarrow> y = 1/2)"
    using srgb_round_trip [of "1/2"] by simp
  then show ?thesis by auto
qed

text \<open>
  C7 as stated fails: at \<open>x = 0.04045\<close> the values \<open>x / 12.92\<close> and
  \<open>((x + 0.055) / 1.055) ^ 2.4\<close> are different numbers.
\<close>

theorem srgb_threshold_counterexample:
  "srgb_to_linear_lo (Fin 0.04045) \<noteq> srgb_to_linear_hi (Fin 0.04045)"
  unfolding srgb_branches_at_threshold(1,2)
  using srgb_branches_at_threshold(3) by simp

section \<open>Un-premultiplying by alpha\<close>



section \<open>Error maps without negative entries\<close>

text \<open>
  C9 (as amended). Whenever \<^verbatim>\<open>compute_error_img\<close> returns a 3-D error map, no entry of the
  map is below 0 (each is a non-negative number, \<open>+inf\<close> or NaN): for MAE, MSE, MScE,
  MRSE and MRScE on every pair of images, and for MAPE and SMAPE when no finite entry of
  the reference is below \<open>-0.01\<close>.
\<close>

theorem error_map_not_negative:
  assumes "metric \<in> set [''MAE'', ''MSE'', ''MScE'', ''MRSE'', ''MRScE'']
           \<or> metric \<in> set [''MAPE'', ''SMAPE''] \<and> all3 (not_below (- 0.01)) (s q)"
    and "fst (compute_error_img metric s p q) = Inr (Map3 r)"
  shows "all3 not_negative r"
proof -
  let ?s1 = "s(p := map3 zero_nonfinite (s p))"
  let ?img = "map3 (\<lambda>x. fmaximum x (Fin 0)) (?s1 p)"
  have img: "all3 nonneg_finite ?img"
    using sanitized_candidate [of "s p"] by simp
  have ref: "all3 (not_below (- 0.01)) (?s1 q)" if "all3 (not_below (- 0.01)) (s q)"
    using that by (auto simp: all3_map3 not_below_sanitized elim!: all3_mono)
  from assms(1) have "metric = ''MAE'' \<or> metric = ''MSE'' \<or> metric = ''MScE''
      \<or> metric = ''MRSE'' \<or> metric = ''MRScE''
      \<or> (metric = ''MAPE'' \<or> metric = ''SMAPE'') \<and> all3 (not_below (- 0.01)) (s q)"
    by (simp only: list.set insert_iff empty_iff simp_thms disj_assoc)
  then show ?thesis
  proof (elim disjE conjE)
    assume "metric = ''MAE''"
    with assms(2) show ?thesis
      by (auto simp: compute_error_img_def Let_def dest!: map_sum_Map3 L1_not_negative)
  next
    assume "metric = ''MSE''"
    with assms(2) show ?thesis
      by (auto simp: compute_error_img_def Let_def dest!: map_sum_Map3 L2_not_negative)
  next
    assume "metric = ''MScE''"
    with assms(2) show ?thesis
      by (auto simp: compute_error_img_def Let_def dest!: map_sum_Map3 L2_not_negative)
  next
    assume "metric = ''MRSE''"
    with assms(2) show ?thesis
      by (auto simp: compute_error_img_def Let_def dest!: map_sum_Map3 RSE_not_negative)
  next
    assume "metric = ''MRScE''"
    with assms(2) show ?thesis
      by (auto simp: compute_error_img_def Let_def dest!: map_sum_Map3 RSE_not_negative)
  next
    assume "metric = ''MAPE''" and r: "all3 (not_below (- 0.01)) (s q)"
    with assms(2) have "APE ?img (?s1 q) = Inr r"
      by (auto simp: compute_error_img_def Let_def dest!: map_sum_Map3)
    then show ?thesis using ref [OF r] by (rule APE_not_negative)
  next
    assume "metric = ''SMAPE''" and r: "all3 (not_below (- 0.01)) (s q)"
    with assms(2) have "SAPE ?img (?s1 q) = Inr r"
      by (auto simp: compute_error_img_def Let_def dest!: map_sum_Map3)
    then show ?thesis using img ref [OF r] by (rule SAPE_not_negative)
  qed
qed

text \<open>MAPE of the 1x1 images \<open>[[[1]]]\<close> and \<open>[[[0]]]\<close> is the map \<open>[[[100]]]\<close>.\<close>

theorem error_map_not_negative_witness:
  "fst (compute_error_img ''MAPE'' (heap0(0 := [[[Fin 1]]], 1 := [[[Fin 0]]])) 0 1) = Inr (Map3 [[[Fin 100]]])
   \<and> all3 (not_below (- 0.01)) [[[Fin 0]]] \<and> all3 not_negative [[[Fin 100]]]"
proof -
  let ?s = "heap0(0 := [[[Fin 1]]], 1 := [[[Fin 0]]])"
  have e: "fst (compute_error_img ''MAPE'' ?s 0 1) = Inr (Map3 [[[Fin 100]]])"
    by (simp add: compute_error_img_def APE_def L1_def ew3_def broadcast_def bind_err_def
        map3_def zero_nonfinite_def fsub_def)
  have h: "all3 (not_below (- 0.01)) (?s 1)"
    by (simp add: all3_def not_below_def)
  from error_map_not_negative [of "''MAPE''" ?s 1 0 "[[[Fin 100]]]"] e h
  have "all3 not_negative [[[Fin 100]]]" by simp
  with e h show ?thesis by simp
qed

text \<open>
  C9 as stated fails for a negative reference: MAPE divides by \<open>0.01 + ref\<close>, so the
  candidate \<open>[[[0]]]\<close> against the reference \<open>[[[-1]]]\<close> has the entry \<open>-100/99\<close>.
\<close>

theorem error_map_negative_counterexample:
  "fst (compute_error_img ''MAPE'' (heap0(0 := [[[Fin 0]]], 1 := [[[Fin (- 1)]]])) 0 1)
     = Inr (Map3 [[[Fin (- (100 / 99))]]])
   \<and> \<not> all3 not_negative [[[Fin (- (100 / 99))]]]"
  by (simp add: compute_error_img_def APE_def L1_def ew3_def broadcast_def bind_err_def
      map3_def zero_nonfinite_def fsub_def all3_def not_negative_def)

text \<open>
  An SSIM map can be negative: two 1x2 images, one white then black, the other black then
  white, have a negative covariance at both pixels.
\<close>

lemma luminance_examples: "luminance [[[Fin 1, Fin 1, Fin 1], [Fin 0, Fin 0, Fin 0]]] = Inr [[Fin 1, Fin 0]]"
  "luminance [[[Fin 0, Fin 0, Fin 0], [Fin 1, Fin 1, Fin 1]]] = Inr [[Fin 0, Fin 1]]"
  by (simp_all add: luminance_def luminance_px_def map3_def)

lemma blur_1x2: "blur [[Fin x, Fin y]] = [[Fin (0.525963 * x + 0.474037 * y), Fin (0.474037 * x + 0.525963 * y)]]"
  by (simp add: blur_def convolve1d_def taps_def reflect_def kernel_def fsum_def upt_conv_Cons Let_def algebra_simps)

lemma SSIM_negative_example:
  "fst (compute_error_img ''SSIM''
     (heap0(0 := [[[Fin 1, Fin 1, Fin 1], [Fin 0, Fin 0, Fin 0]]],
            1 := [[[Fin 0, Fin 0, Fin 0], [Fin 1, Fin 1, Fin 1]]])) 0 1)
   = Inr (Map2 [[Fin (- (20687887608915665987387 / 20874945916882734012613)),
                 Fin (- (20687887608915665987387 / 20874945916882734012613))]])"
  by (simp add: compute_error_img_def SSIM_def luminance_examples blur_1x2 map3_def clip1_def zero_nonfinite_def
      bind_err_def ew2_def broadcast_def map2d_def fsub_def fsqr_def c1_def c2_def Let_def
      power2_eq_square)

section \<open>SSIM sees its inputs through the clamp to [0, 1]\<close>

text \<open>
  C10. For finite non-negative images \<open>img\<close> and \<open>ref\<close>,
  \<^verbatim>\<open>compute_error_img("SSIM", img, ref)\<close> returns what it returns on the two images clamped
  to [0, 1] (held anywhere in a store): values above 1 do not affect the result.
\<close>

theorem SSIM_depends_on_clamp:
  assumes "all3 nonneg_finite (s p)" "all3 nonneg_finite (s q)"
    and "s' p' = map3 (clip1 0 1) (s p)" "s' q' = map3 (clip1 0 1) (s q)"
  shows "fst (compute_error_img ''SSIM'' s' p' q') = fst (compute_error_img ''SSIM'' s p q)"
proof -
  have l: "(s(p := map3 zero_nonfinite (s p))) q = s q"
    using sanitize_image(1) [OF assms(1)] by simp
  have cp: "all3 nonneg_finite (s' p')" and cq: "all3 nonneg_finite (s' q')"
    using assms sanitize_image(3) by simp_all
  have r: "(s'(p' := map3 zero_nonfinite (s' p'))) q' = s' q'"
    using sanitize_image(1) [OF cp] by simp
  have "fst (compute_error_img ''SSIM'' s p q) =
        map_sum id Map2 (SSIM (map3 (clip1 0 1) (s p)) (map3 (clip1 0 1) (s q)))"
    unfolding compute_error_img_def Let_def l
    by (simp add: sanitize_image(1,2) [OF assms(1)])
  moreover have "fst (compute_error_img ''SSIM'' s' p' q') =
        map_sum id Map2 (SSIM (map3 (clip1 0 1) (s' p')) (map3 (clip1 0 1) (s' q')))"
    unfolding compute_error_img_def Let_def r
    by (simp add: sanitize_image(1,2) [OF cp])
  ultimately show ?thesis
    by (simp add: assms(3,4) map3_map3 clip_clip)
qed

text \<open>Two 1x1 images with entries 2 and 3, and their clamped copies.\<close>

theorem SSIM_depends_on_clamp_witness:
  "all3 nonneg_finite [[[Fin 2, Fin 0, Fin 1]]] \<and> all3 nonneg_finite [[[Fin 1, Fin 3, Fin 0]]]
   \<and> map3 (clip1 0 1) [[[Fin 2, Fin 0, Fin 1]]] = [[[Fin 1, Fin 0, Fin 1]]]
   \<and> map3 (clip1 0 1) [[[Fin 1, Fin 3, Fin 0]]] = [[[Fin 1, Fin 1, Fin 0]]]
   \<and> fst (compute_error_img ''SSIM'' (heap0(0 := [[[Fin 1, Fin 0, Fin 1]]], 1 := [[[Fin 1, Fin 1, Fin 0]]])) 0 1)
     = fst (compute_error_img ''SSIM'' (heap0(0 := [[[Fin 2, Fin 0, Fin 1]]], 1 := [[[Fin 1, Fin 3, Fin 0]]])) 0 1)"
proof -
  let ?s = "heap0(0 := [[[Fin 2, Fin 0, Fin 1]]], 1 := [[[Fin 1, Fin 3, Fin 0]]])"
  let ?s' = "heap0(0 := [[[Fin 1, Fin 0, Fin 1]]], 1 := [[[Fin 1, Fin 1, Fin 0]]])"
  have a: "all3 nonneg_finite [[[Fin 2, Fin 0, Fin 1]]]" "all3 nonneg_finite [[[Fin 1, Fin 3, Fin 0]]]"
    by (simp_all add: all3_def nonneg_finite_def)
  have b: "map3 (clip1 0 1) [[[Fin 2, Fin 0, Fin 1]]] = [[[Fin 1, Fin 0, Fin 1]]]"
    "map3 (clip1 0 1) [[[Fin 1, Fin 3, Fin 0]]] = [[[Fin 1, Fin 1, Fin 0]]]"
    by (simp_all add: map3_def clip1_def)
  have h: "all3 nonneg_finite (?s 0)" "all3 nonneg_finite (?s 1)"
    "?s' 0 = map3 (clip1 0 1) (?s 0)" "?s' 1 = map3 (clip1 0 1) (?s 1)"
    using a b by simp_all
  have "fst (compute_error_img ''SSIM'' ?s' 0 1) = fst (compute_error_img ''SSIM'' ?s 0 1)"
    by (rule SSIM_depends_on_clamp [OF h])
  with a b show ?thesis by (intro conjI)
qed

end
